theory Spec2Isabelle
  imports Complex_Main "HOL-Library.AList"
begin

section \<open>Data model of \<open>orb_controller.py\<close>\<close>

text \<open>
  Python floats are read as reals and the float literals of the source as the decimal
  fractions they denote. Exceptions that the source can raise are values of
  \<open>py_error\<close>.
\<close>

datatype py_error = IndexError | ZeroDivisionError

datatype pyval = PyNone | PyBool bool | PyNum real | PyStr string

text \<open>
  A stimulus is the dict handed to \<open>cognitively_emerge\<close>. Each field is the result of
  \<open>stimulus.get(key)\<close>, \<open>None\<close> when the key is absent. Coordinates are the first two
  entries of the coordinate list; \<open>meta\<close> is a dict, kept as an association list.
\<close>

record stimulus =
  stype :: "string option"
  coordinates :: "(real \<times> real) option"
  velocity :: "real option"
  orb_coordinates :: "(real \<times> real) option"
  content :: "string option"
  meta :: "(string \<times> pyval) list option"

text \<open>A node of the spatial index, as the controller reads it.\<close>

record node =
  node_n :: int
  node_k :: int
  node_coordinates :: "real list"
  adjacency_value :: real

text \<open>
  The spatial engine (\<open>hlsf_singleton\<close>): \<open>field_map\<close> holds the values of the dict in
  iteration order, so its length is \<open>len(self.engine.field_map)\<close>. The attribute
  \<open>last_density_breach\<close> may be missing (\<open>getattr\<close> with default 0).
\<close>

record engine =
  field_map :: "node list"
  dimension :: nat
  purge_trigger_threshold :: real
  max_field_density :: real
  last_density_breach :: "real option"

text \<open>The operations of \<open>BayesianEngine\<close> that the controller calls, over its state \<open>'b\<close>.\<close>

record 'b bayes_ops =
  set_prior :: "string \<Rightarrow> real \<Rightarrow> real \<Rightarrow> 'b \<Rightarrow> 'b"
  add_evidence :: "string \<Rightarrow> string \<Rightarrow> real \<Rightarrow> string \<Rightarrow> real \<Rightarrow> 'b \<Rightarrow> 'b"
  calculate_posterior :: "'b \<Rightarrow> string \<Rightarrow> real option"
  has_prior :: "'b \<Rightarrow> string \<Rightarrow> bool"
  update_with_outcome :: "string \<Rightarrow> bool \<Rightarrow> real \<Rightarrow> 'b \<Rightarrow> 'b"

text \<open>The dict returned by \<open>HabitTracker.predict_next\<close>.\<close>

record prediction =
  prediction_type :: string
  target :: "string option"
  confidence :: real
  hume_vivacity :: real

text \<open>
  The dict returned by \<open>IntuitiveRecognizer.check_necessity\<close>; the keys
  \<open>necessity_vector\<close> and \<open>bypass_steps\<close> exist only when the jump triggered.
\<close>

record intuition =
  jump_triggered :: bool
  int_necessity_vector :: "(real \<times> real) option"
  int_substance_unity_score :: real
  bypass_steps :: "nat option"
  int_spinozan_certainty :: real
  int_field_density :: nat

text \<open>The \<open>state\<close> dict of \<open>_synthesize_logic_triad\<close>; an absent key is \<open>None\<close>.\<close>

record logic_state =
  field_density :: real
  active_mode :: string
  intuitive_jump_triggered :: "bool option"
  necessity_vector :: "(real \<times> real) option option"
  spinozan_certainty :: "real option"
  substance_unity_score :: "real option"
  inductive_prediction :: "prediction option"
  ls_hume_vivacity :: "real option"
  custom_habit_active :: "bool option"
  bayes_habit_prob :: "real option"
  bayes_jump_prob :: "real option"
  bayes_guard_prob :: "real option"
  epistemic_bayes :: "(string \<times> real) list option"
  density_penalty :: "real option"

section \<open>Mode synthesis\<close>

definition or_zero :: "real option \<Rightarrow> real" where
  "or_zero p = (case p of None \<Rightarrow> 0 | Some x \<Rightarrow> x)"

definition guard_like :: "string \<Rightarrow> bool" where
  "guard_like m = (m = ''GUARD'' \<or> m = ''GUARD-HABIT'')"

definition initial_logic_state :: "real \<Rightarrow> logic_state" where
  "initial_logic_state d =
     \<lparr>field_density = d, active_mode = ''GUARD'', intuitive_jump_triggered = None,
      necessity_vector = None, spinozan_certainty = None, substance_unity_score = None,
      inductive_prediction = None, ls_hume_vivacity = None, custom_habit_active = None,
      bayes_habit_prob = None, bayes_jump_prob = None, bayes_guard_prob = None,
      epistemic_bayes = None, density_penalty = None\<rparr>"

definition effective_density :: "engine \<Rightarrow> real" where
  "effective_density eng =
     (let live_density = real (length (field_map eng));
          breach_density = (case last_density_breach eng of None \<Rightarrow> 0 | Some d \<Rightarrow> d)
      in max live_density breach_density)"

text \<open>The four density and posterior rules that follow the posterior update, in source order.\<close>

definition apply_purge_rule :: "engine \<Rightarrow> logic_state \<Rightarrow> logic_state" where
  "apply_purge_rule eng st =
     (if guard_like (active_mode st) \<and> field_density st \<ge> purge_trigger_threshold eng
      then st\<lparr>active_mode := ''GUARD-HABIT'', density_penalty := Some 1.0\<rparr>
      else st)"

definition apply_emergency_rule :: "engine \<Rightarrow> logic_state \<Rightarrow> logic_state" where
  "apply_emergency_rule eng st =
     (if field_density st \<ge> max_field_density eng * 0.95 \<and> active_mode st \<noteq> ''INTUITION-JUMP''
      then st\<lparr>active_mode := ''INTUITION-JUMP'', density_penalty := Some 1.5\<rparr>
      else st)"

definition apply_habit_posterior :: "real \<Rightarrow> logic_state \<Rightarrow> logic_state" where
  "apply_habit_posterior habit_post st =
     (if guard_like (active_mode st) \<and> habit_post > 0.55
      then st\<lparr>active_mode := ''HABIT''\<rparr> else st)"

definition apply_jump_posterior :: "real \<Rightarrow> logic_state \<Rightarrow> logic_state" where
  "apply_jump_posterior jump_post st =
     (if active_mode st \<noteq> ''INTUITION-JUMP'' \<and> jump_post > 0.45
      then st\<lparr>active_mode := ''INTUITION-JUMP''\<rparr> else st)"

definition synthesize_logic_triad ::
  "'b bayes_ops \<Rightarrow> engine \<Rightarrow> 'b \<Rightarrow> prediction option \<Rightarrow> intuition \<Rightarrow>
   (string \<times> real) list \<Rightarrow> logic_state" where
  "synthesize_logic_triad B eng bayes inductive intuitive bayes_shadows =
     (let state = initial_logic_state (effective_density eng) in
      if jump_triggered intuitive then
        state\<lparr>intuitive_jump_triggered := Some True,
              necessity_vector := Some (int_necessity_vector intuitive),
              spinozan_certainty := Some (int_spinozan_certainty intuitive),
              active_mode := ''INTUITION-JUMP'',
              substance_unity_score := Some (int_substance_unity_score intuitive)\<rparr>
      else
        let state = (case inductive of
                       None \<Rightarrow> state
                     | Some ind \<Rightarrow>
                         state\<lparr>inductive_prediction := Some ind,
                               ls_hume_vivacity := Some (hume_vivacity ind),
                               custom_habit_active := Some (confidence ind > 0.35),
                               active_mode := (if confidence ind > 0.35 then ''HABIT''
                                               else ''GUARD-HABIT'')\<rparr>);
            habit_post = or_zero (calculate_posterior B bayes ''habit_continues'');
            jump_post = or_zero (calculate_posterior B bayes ''jump_necessary'');
            guard_post = or_zero (calculate_posterior B bayes ''guard_sufficient'');
            state = state\<lparr>bayes_habit_prob := Some habit_post,
                           bayes_jump_prob := Some jump_post,
                           bayes_guard_prob := Some guard_post,
                           epistemic_bayes := Some bayes_shadows\<rparr>;
            state = apply_purge_rule eng state;
            state = apply_emergency_rule eng state;
            state = apply_habit_posterior habit_post state;
            state = apply_jump_posterior jump_post state
        in state)"

section \<open>Strings\<close>

text \<open>\<open>sep.join(parts)\<close>, \<open>s.split(sep)\<close> for a one-character separator, and \<open>sub in s\<close>.\<close>

fun join_with :: "string \<Rightarrow> string list \<Rightarrow> string" where
  "join_with sep [] = []"
| "join_with sep [p] = p"
| "join_with sep (p # q # ps) = p @ sep @ join_with sep (q # ps)"

fun split_on :: "char \<Rightarrow> string \<Rightarrow> string list" where
  "split_on c [] = [[]]"
| "split_on c (x # xs) =
     (if x = c then [] # split_on c xs
      else (case split_on c xs of
              [] \<Rightarrow> [[x]]
            | w # ws \<Rightarrow> (x # w) # ws))"

fun contains :: "string \<Rightarrow> string \<Rightarrow> bool" where
  "contains sub [] = (sub = [])"
| "contains sub (c # cs) = (take (length sub) (c # cs) = sub \<or> contains sub cs)"

section \<open>The crystallization store\<close>

text \<open>
  \<open>VaultManager\<close> is not part of these sources. The store is represented by the
  sequence of \<open>crystallize\<close> calls it has received, oldest first; what it answers to
  \<open>lightning_query\<close> and what its \<open>posteriori_cache\<close> holds are parameters
  (see \<open>vault_ops\<close> below). The record of a habit is the dict literal built in
  \<open>_update_conjunction_frequency\<close>.
\<close>

record habit_record =
  pattern :: string
  frequency :: real
  predicted_next :: string
  temporal_decay :: real

section \<open>HabitTracker\<close>

record observation =
  quadrant :: string
  obs_coords :: "real \<times> real"
  obs_velocity :: real
  obs_timestamp :: real

text \<open>
  \<open>sequence_buffer\<close> is a \<open>deque(maxlen=5)\<close>; \<open>pattern_cache\<close> maps a pattern key to its
  count, in insertion order.
\<close>

record habit_tracker =
  sequence_buffer :: "observation list"
  pattern_cache :: "(string \<times> nat) list"

definition deque_append :: "'a list \<Rightarrow> 'a \<Rightarrow> 'a list" where
  "deque_append buf x = (if length buf \<ge> 5 then tl buf @ [x] else buf @ [x])"

definition coords_to_quadrant :: "real \<times> real \<Rightarrow> string" where
  "coords_to_quadrant coords =
     (let x = fst coords; y = snd coords;
          grid_x = 1920 / 2; grid_y = 1080 / 2;
          col = (if x < grid_x then 0 else 1::nat);
          row = (if y < grid_y then 0 else 1::nat)
      in [''NW'', ''NE'', ''SW'', ''SE''] ! (row * 2 + col))"

definition serialize_pattern :: "observation list \<Rightarrow> string" where
  "serialize_pattern sequence = join_with ''_'' (map quadrant sequence)"

definition extrapolate_next_quadrant :: "string \<Rightarrow> string" where
  "extrapolate_next_quadrant pattern_key =
     (let parts = split_on (CHR ''_'') pattern_key
      in if length parts \<ge> 2 then last parts else ''UNKNOWN'')"

definition cache_count :: "(string \<times> nat) list \<Rightarrow> string \<Rightarrow> nat" where
  "cache_count cache k = (case map_of cache k of None \<Rightarrow> 0 | Some c \<Rightarrow> c)"

definition cache_increment :: "(string \<times> nat) list \<Rightarrow> string \<Rightarrow> (string \<times> nat) list" where
  "cache_increment cache k =
     (let cache1 = (if k \<in> fst ` set cache then cache else cache @ [(k, 0)])
      in map (\<lambda>(k', c). if k' = k then (k', c + 1) else (k', c)) cache1)"

definition get_quadrant_heat :: "habit_tracker \<Rightarrow> string \<Rightarrow> real" where
  "get_quadrant_heat ht quadrant_code =
     (let heat = sum_list (map (\<lambda>(pat, c). if contains quadrant_code pat then c else 0)
                             (pattern_cache ht))
      in min (real heat / 100) 1)"

section \<open>IntuitiveRecognizer\<close>

definition py_truediv :: "real \<Rightarrow> real \<Rightarrow> py_error + real" where
  "py_truediv a b = (if b = 0 then Inl ZeroDivisionError else Inr (a / b))"

definition mirror_pair :: "real list \<Rightarrow> real list \<Rightarrow> bool" where
  "mirror_pair c1 c2 =
     (length c1 \<ge> 2 \<and> length c2 \<ge> 2 \<and>
      \<bar>c1 ! 0 + c2 ! 0\<bar> < 0.2 \<and> \<bar>c1 ! 1 - c2 ! 1\<bar> < 0.2)"

text \<open>The double loop over \<open>coords_list[i]\<close> and \<open>coords_list[i + 1:]\<close>.\<close>

fun mirror_count :: "real list list \<Rightarrow> nat" where
  "mirror_count [] = 0"
| "mirror_count (c1 # rest) = length (filter (mirror_pair c1) rest) + mirror_count rest"

definition total_pairs :: "nat \<Rightarrow> real" where
  "total_pairs n = real (n * (n - 1)) / 2"

definition calculate_bilateral_symmetry :: "engine \<Rightarrow> py_error + real" where
  "calculate_bilateral_symmetry eng =
     (if field_map eng = [] then Inr 0
      else let nodes = field_map eng in
        if length nodes < 2 then Inr 0
        else let coords_list = map node_coordinates nodes;
                 tp = total_pairs (length nodes)
             in if tp > 0 then py_truediv (real (mirror_count coords_list)) tp else Inr 0)"

definition add_coordinates :: "real list \<Rightarrow> real list \<Rightarrow> real list" where
  "add_coordinates centroid coords =
     map (\<lambda>i. if i < length coords then centroid ! i + coords ! i else centroid ! i)
         [0..<length centroid]"

text \<open>
  \<open>count\<close> is the length of a non-empty \<open>field_map\<close> (the empty one returned above),
  so the division by it is defined; the final \<open>centroid[0]\<close>, \<open>centroid[1]\<close> raise
  IndexError when \<open>min(dimension, 18) < 2\<close>.
\<close>

definition calculate_substance_vector :: "engine \<Rightarrow> node \<Rightarrow> py_error + (real \<times> real)" where
  "calculate_substance_vector eng current_node =
     (if field_map eng = [] then Inr (0, 0)
      else let centroid0 = replicate (min (dimension eng) 18) 0;
               centroid1 = foldl add_coordinates centroid0 (map node_coordinates (field_map eng));
               count = real (length (field_map eng));
               centroid = map (\<lambda>c. c / count) centroid1
           in if length centroid \<ge> 2 then Inr (centroid ! 0, centroid ! 1)
              else Inl IndexError)"

definition no_jump :: "nat \<Rightarrow> real \<Rightarrow> intuition" where
  "no_jump fd score =
     \<lparr>jump_triggered = False, int_necessity_vector = None, int_substance_unity_score = score,
      bypass_steps = None, int_spinozan_certainty = 0.0, int_field_density = fd\<rparr>"

definition check_necessity :: "engine \<Rightarrow> stimulus \<Rightarrow> node \<Rightarrow> py_error + intuition" where
  "check_necessity eng stim current_node =
     (let fd = length (field_map eng);
          fallthrough = (case calculate_bilateral_symmetry eng of
                           Inl e \<Rightarrow> Inl e
                         | Inr score \<Rightarrow> Inr (no_jump fd score))
      in if fd > 50 then
           (case calculate_bilateral_symmetry eng of
              Inl e \<Rightarrow> Inl e
            | Inr symmetry_score \<Rightarrow>
                if symmetry_score > 0.9 then
                  (case calculate_substance_vector eng current_node of
                     Inl e \<Rightarrow> Inl e
                   | Inr nv \<Rightarrow>
                       Inr \<lparr>jump_triggered = True, int_necessity_vector = Some nv,
                            int_substance_unity_score = symmetry_score,
                            bypass_steps = Some (fd div 10),
                            int_spinozan_certainty = 0.98, int_field_density = fd\<rparr>)
                else fallthrough)
         else fallthrough)"

section \<open>Shadows, convergence and the verdict table\<close>

text \<open>
  A shadow is the dict one perspective returns; the controller reads its \<open>confidence\<close>
  and \<open>reliability\<close> keys with defaults. The shadows of a stimulus are a dict from
  perspective name to shadow, kept in iteration order.
\<close>

record shadow =
  sh_confidence :: "real option"
  sh_reliability :: "real option"

type_synonym shadows = "(string \<times> shadow) list"

definition calculate_convergence :: "shadows \<Rightarrow> logic_state \<Rightarrow> real list \<Rightarrow> real" where
  "calculate_convergence shs logic thought_vec =
     (let base = 0.85;
          base = (if intuitive_jump_triggered logic = Some True then base + 0.14
                  else if custom_habit_active logic = Some True then base + 0.08
                  else base);
          base = (if length shs \<ge> 3 then base + 0.02 else base);
          vec_magnitude = (if thought_vec \<noteq> [] then sum_list (map abs thought_vec) else 0.0);
          base = base + min (vec_magnitude * 0.001) 0.02
      in min base 0.99)"

definition verdict_from_mode :: "string \<Rightarrow> string" where
  "verdict_from_mode mode =
     (if mode = ''INTUITION-JUMP'' then ''escalate''
      else if mode = ''HABIT'' then ''act''
      else if mode = ''GUARD-HABIT'' then ''monitor''
      else ''no_act'')"

section \<open>The correlation envelope\<close>

record lobe_return =
  lobe_shadow :: shadow
  lobe_confidence :: real
  advisory_verdict :: string

record ecm_return =
  convergence_weights :: "(string \<times> real) list"
  inputs :: shadows
  ecm_note :: string

record core_4_returns =
  caleon :: lobe_return
  kaygee :: lobe_return
  cali_x_one :: lobe_return
  ecm :: ecm_return

record tension_indicators =
  entropy :: real
  spread :: real
  reweight_recommended :: bool

record advisory =
  advisory_only :: bool
  confidence_gradients :: "(string \<times> real) list"
  tension :: tension_indicators
  suggestion :: string

record cali_event =
  ev_type :: string
  ev_detail :: string

record cali_flags =
  drift_detected :: bool
  anomaly_detected :: bool
  ethical_tension :: bool

record reflection =
  observational_only :: bool
  events :: "cali_event list"
  flags :: cali_flags

record envelope =
  stardate :: real
  glyph_trace :: string
  core_4 :: core_4_returns
  advisory_plus_one :: advisory
  cali_reflection :: reflection
  final_verdict :: string
  final_verdict_source :: string
  env_confidence :: real

text \<open>\<open>json.dumps\<close>, the formatting of a float and SHA-256 are taken as given.\<close>

record codec_ops =
  json_dumps :: "stimulus \<Rightarrow> string"
  str_float :: "real \<Rightarrow> string"
  sha256_hexdigest :: "string \<Rightarrow> string"

definition get_shadow :: "shadows \<Rightarrow> string \<Rightarrow> shadow" where
  "get_shadow shs name =
     (case map_of shs name of
        None \<Rightarrow> \<lparr>sh_confidence = None, sh_reliability = None\<rparr>
      | Some s \<Rightarrow> s)"

definition shadow_confidence :: "shadow \<Rightarrow> real" where
  "shadow_confidence s = (case sh_confidence s of None \<Rightarrow> 0.5 | Some c \<Rightarrow> c)"

definition normalize_weights :: "(string \<times> real) list \<Rightarrow> (string \<times> real) list" where
  "normalize_weights weights =
     (let s = sum_list (map snd weights);
          total = (if s = 0 then 1.0 else s)
      in map (\<lambda>(k, v). (k, v / total)) weights)"

definition softmax :: "real list \<Rightarrow> real list" where
  "softmax vals =
     (if vals = [] then []
      else let max_val = fold max (tl vals) (hd vals);
               exps = map (\<lambda>v. exp (v - max_val)) vals;
               s = sum_list exps;
               total = (if s = 0 then 1.0 else s)
           in map (\<lambda>e. e / total) exps)"

definition glyph_trace_of :: "codec_ops \<Rightarrow> stimulus \<Rightarrow> real \<Rightarrow> string" where
  "glyph_trace_of K stim sd =
     (let canonical = json_dumps K stim;
          payload = str_float K sd @ '':'' @ canonical
      in sha256_hexdigest K payload)"

definition build_core_4_returns ::
  "shadows \<Rightarrow> (string \<times> real) list \<Rightarrow> logic_state \<Rightarrow> core_4_returns" where
  "build_core_4_returns shs bayes_shadows logic =
     (let caleon_shadow = get_shadow shs ''spinoza'';
          kaygee_shadow = get_shadow shs ''kant'';
          cali_shadow = get_shadow shs ''hume'';
          locke_shadow = get_shadow shs ''locke'';
          verdict = verdict_from_mode (active_mode logic);
          weights = normalize_weights
                      [(''caleon'', shadow_confidence caleon_shadow),
                       (''kaygee'', shadow_confidence kaygee_shadow),
                       (''cali_x_one'', shadow_confidence cali_shadow),
                       (''empirical'', shadow_confidence locke_shadow)]
      in \<lparr>caleon = \<lparr>lobe_shadow = caleon_shadow,
                     lobe_confidence = shadow_confidence caleon_shadow,
                     advisory_verdict = verdict\<rparr>,
          kaygee = \<lparr>lobe_shadow = kaygee_shadow,
                     lobe_confidence = shadow_confidence kaygee_shadow,
                     advisory_verdict = verdict\<rparr>,
          cali_x_one = \<lparr>lobe_shadow = cali_shadow,
                         lobe_confidence = shadow_confidence cali_shadow,
                         advisory_verdict = verdict\<rparr>,
          ecm = \<lparr>convergence_weights = weights,
                  inputs = [(''locke'', locke_shadow), (''hume'', cali_shadow),
                            (''kant'', kaygee_shadow), (''spinoza'', caleon_shadow)],
                  ecm_note = ''ECM emits convergence weights only (advisory).''\<rparr>\<rparr>)"

definition build_advisory_plus_one :: "core_4_returns \<Rightarrow> advisory" where
  "build_advisory_plus_one c4 =
     (let confidences = [(''caleon'', lobe_confidence (caleon c4)),
                         (''kaygee'', lobe_confidence (kaygee c4)),
                         (''cali_x_one'', lobe_confidence (cali_x_one c4))];
          vals = map snd confidences;
          weights = softmax vals;
          gradients = zip (map fst confidences) weights;
          ent = - sum_list (map (\<lambda>p. p * ln (p + 1 / 10 ^ 9)) weights);
          spr = (if confidences \<noteq> []
                 then fold max (tl vals) (hd vals) - fold min (tl vals) (hd vals)
                 else 0.0);
          reweight = (ent > 1.0 \<or> spr > 0.2)
      in \<lparr>advisory_only = True,
          confidence_gradients = gradients,
          tension = \<lparr>entropy = ent, spread = spr, reweight_recommended = reweight\<rparr>,
          suggestion = (if reweight then ''consider re-weighting high-tension lobes''
                        else ''no reweight suggested'')\<rparr>)"

definition build_cali_reflection :: "advisory \<Rightarrow> logic_state \<Rightarrow> reflection" where
  "build_cali_reflection adv logic =
     (let ent = entropy (tension adv);
          spr = spread (tension adv);
          evs = (if spr > 0.2
                 then [\<lparr>ev_type = ''drift'',
                        ev_detail = ''confidence spread exceeded threshold''\<rparr>]
                 else []);
          evs = (if ent > 1.0
                 then evs @ [\<lparr>ev_type = ''anomaly'',
                              ev_detail = ''high entropy in lobe gradients''\<rparr>]
                 else evs);
          evs = (if active_mode logic = ''INTUITION-JUMP'' \<and> ent > 0.9
                 then evs @ [\<lparr>ev_type = ''tension'',
                              ev_detail = ''intuition jump under high entropy''\<rparr>]
                 else evs)
      in \<lparr>observational_only = True,
          events = evs,
          flags = \<lparr>drift_detected = list_ex (\<lambda>e. ev_type e = ''drift'') evs,
                    anomaly_detected = list_ex (\<lambda>e. ev_type e = ''anomaly'') evs,
                    ethical_tension = list_ex (\<lambda>e. ev_type e = ''tension'') evs\<rparr>\<rparr>)"

text \<open>\<open>sd\<close> is the reading of \<open>time.time()\<close> taken at the start of the function.\<close>

definition build_correlation_envelope ::
  "codec_ops \<Rightarrow> real \<Rightarrow> stimulus \<Rightarrow> shadows \<Rightarrow> (string \<times> real) list \<Rightarrow> logic_state \<Rightarrow>
   real \<Rightarrow> envelope" where
  "build_correlation_envelope K sd stim shs bayes_shadows logic conf =
     (let gt = glyph_trace_of K stim sd;
          c4 = build_core_4_returns shs bayes_shadows logic;
          adv = build_advisory_plus_one c4;
          refl = build_cali_reflection adv logic;
          fv = verdict_from_mode (active_mode logic)
      in \<lparr>stardate = sd, glyph_trace = gt, core_4 = c4, advisory_plus_one = adv,
          cali_reflection = refl, final_verdict = fv,
          final_verdict_source = ''UCM Core-4 deliberation (ECM advisory only)'',
          env_confidence = conf\<rparr>)"

section \<open>The thought object and the store\<close>

record spatial_coord =
  node_id :: string
  recursion_depth :: int
  sc_coordinates :: "real list"
  sc_adjacency_value :: real

text \<open>Of the field statistics the controller reads \<open>renewal_pressure\<close> only.\<close>

record gravity_stats =
  renewal_pressure :: "real option"

text \<open>
  \<open>CrossDomainPredicate\<close>: the constructor sets the first five attributes, the
  controller attaches the others afterwards (\<open>None\<close> while unset).
\<close>

record thought =
  epistemic_traces :: shadows
  hlsf_node :: spatial_coord
  logic_validity :: logic_state
  th_confidence :: real
  th_timestamp :: real
  th_gravity_stats :: "gravity_stats option"
  navigation_vector :: "(real \<times> real) option"
  ucm_envelope :: "envelope option"
  th_cali_reflection :: "reflection option"
  th_final_verdict :: "string option"
  th_final_verdict_source :: "string option"

text \<open>
  The dict crystallized at the end of a full cycle. Its \<open>predicate\<close> entry is
  \<open>thought.pulse()\<close>, a function of the thought, which stands for it here.
\<close>

record thought_record =
  predicate :: thought
  tr_confidence :: real
  triad_c_mode :: string
  tr_field_density :: real
  tr_ucm_envelope :: envelope
  tr_cali_reflection :: reflection

datatype vault_key = StimulusKey stimulus | StringKey string

datatype vault_record = HabitRecord habit_record | ThoughtRecord thought_record

type_synonym vault = "(vault_key \<times> vault_record) list"

definition crystallize :: "vault_key \<Rightarrow> vault_record \<Rightarrow> vault \<Rightarrow> vault" where
  "crystallize k r v = v @ [(k, r)]"

text \<open>
  The reads of the store. A cached result is a record that was crystallized, a non-empty
  dict, so \<open>if bypass:\<close> and \<open>if cached:\<close> test for \<open>None\<close>.
\<close>

record vault_ops =
  lightning_query :: "vault \<Rightarrow> stimulus \<Rightarrow> vault_record option"
  posteriori_cache :: "vault \<Rightarrow> string \<Rightarrow> habit_record option"

section \<open>HabitTracker: operations that reach the store\<close>

definition update_conjunction_frequency ::
  "habit_tracker \<Rightarrow> vault \<Rightarrow> string \<Rightarrow> habit_tracker \<times> vault" where
  "update_conjunction_frequency ht v pattern_key =
     (let cache = cache_increment (pattern_cache ht) pattern_key;
          rec = \<lparr>pattern = pattern_key,
                 frequency = min (real (cache_count cache pattern_key) / 10.0) 1.0,
                 predicted_next = extrapolate_next_quadrant pattern_key,
                 temporal_decay = 0.95\<rparr>
      in (ht\<lparr>pattern_cache := cache\<rparr>,
          crystallize (StringKey (''habit_'' @ pattern_key)) (HabitRecord rec) v))"

text \<open>\<open>now\<close> is the reading of \<open>time.time()\<close> stored in the observation.\<close>

definition record_observation ::
  "habit_tracker \<Rightarrow> vault \<Rightarrow> stimulus \<Rightarrow> real \<Rightarrow> observation option \<times> habit_tracker \<times> vault" where
  "record_observation ht v stim now =
     (if stype stim \<noteq> Some ''cursor_movement'' then (None, ht, v)
      else
        let coords = (case coordinates stim of None \<Rightarrow> (0, 0) | Some c \<Rightarrow> c);
            obs = \<lparr>quadrant = coords_to_quadrant coords,
                   obs_coords = coords,
                   obs_velocity = (case velocity stim of None \<Rightarrow> 0.0 | Some w \<Rightarrow> w),
                   obs_timestamp = now\<rparr>;
            ht1 = ht\<lparr>sequence_buffer := deque_append (sequence_buffer ht) obs\<rparr>
        in if length (sequence_buffer ht1) \<ge> 3 then
             (let pattern_key = serialize_pattern (sequence_buffer ht1);
                  (ht2, v2) = update_conjunction_frequency ht1 v pattern_key
              in (Some obs, ht2, v2))
           else (Some obs, ht1, v))"

definition last3 :: "'a list \<Rightarrow> 'a list" where
  "last3 xs = drop (length xs - 3) xs"

definition predict_next :: "vault_ops \<Rightarrow> habit_tracker \<Rightarrow> vault \<Rightarrow> prediction option" where
  "predict_next V ht v =
     (if length (sequence_buffer ht) < 3 then None
      else
        let current_pattern = serialize_pattern (last3 (sequence_buffer ht))
        in case posteriori_cache V v (''habit_'' @ current_pattern) of
             Some cached \<Rightarrow>
               Some \<lparr>prediction_type = ''QUADRANT_TRANSITION'',
                     target = Some (predicted_next cached),
                     confidence = frequency cached,
                     hume_vivacity = min (frequency cached * 1.2) 1.0\<rparr>
           | None \<Rightarrow>
               Some \<lparr>prediction_type = ''UNSURE'', target = None,
                     confidence = 0.3, hume_vivacity = 0.4\<rparr>)"

section \<open>ProprioceptionSystem\<close>

record proprioception =
  position :: "real \<times> real"
  target_safe_distance :: real
  min_safe_distance :: real
  prop_velocity :: "real \<times> real"
  last_update :: real

definition update_physics :: "proprioception \<Rightarrow> real \<times> real \<Rightarrow> real \<Rightarrow> real \<Rightarrow> proprioception" where
  "update_physics p current_pos dt now =
     (let dx = fst current_pos - fst (position p);
          dy = snd current_pos - snd (position p)
      in p\<lparr>prop_velocity := (if dt > 0 then dx / dt else 0, if dt > 0 then dy / dt else 0),
            position := current_pos,
            last_update := now\<rparr>)"

text \<open>\<open>r1\<close> and \<open>r2\<close> are the two draws of \<open>random.random()\<close>.\<close>

definition calculate_navigation_vector ::
  "proprioception \<Rightarrow> real \<times> real \<Rightarrow> real \<Rightarrow> real \<Rightarrow> real \<Rightarrow> real \<Rightarrow> real \<times> real" where
  "calculate_navigation_vector p cursor_pos habit_heatmap gravity_density r1 r2 =
     (let dx = fst cursor_pos - fst (position p);
          dy = snd cursor_pos - snd (position p);
          dist = sqrt (dx\<^sup>2 + dy\<^sup>2)
      in if dist = 0 then (0, 0)
         else
           let force_mag =
                 (if dist < min_safe_distance p
                  then - 1.0 * (min_safe_distance p - dist) / min_safe_distance p
                  else if dist > target_safe_distance p
                  then 0.5 * (dist - target_safe_distance p) / 1000.0
                  else 0.0);
               nx = dx / dist;
               ny = dy / dist;
               nav = (nx * force_mag, ny * force_mag);
               nav = (if habit_heatmap \<noteq> 0 \<and> habit_heatmap > 0.5
                      then (fst nav + (r1 - 0.5) * habit_heatmap,
                            snd nav + (r2 - 0.5) * habit_heatmap)
                      else nav);
               nav = (if gravity_density > 0.0
                      then (fst nav - nx * gravity_density * 0.5,
                            snd nav - ny * gravity_density * 0.5)
                      else nav)
           in nav)"

section \<open>EpistemicGravityBridge\<close>

text \<open>
  The bridge is inactive when the tensor library is missing; otherwise it owns a field
  and its side length. \<open>inject_signal\<close> stands for building the zero tensor,
  writing the intensity at one cell and broadcasting it.
\<close>

datatype 'f gravity_bridge = Inactive | Active 'f nat

record 'f field_ops =
  field_step :: "'f \<Rightarrow> 'f"
  inject_signal :: "int \<times> int \<times> int \<Rightarrow> real \<Rightarrow> 'f \<Rightarrow> 'f"
  get_field_stats :: "'f \<Rightarrow> gravity_stats"

definition py_int :: "real \<Rightarrow> int" where
  "py_int r = (if r \<ge> 0 then \<lfloor>r\<rfloor> else \<lceil>r\<rceil>)"

definition process_stimulus ::
  "'f field_ops \<Rightarrow> 'f gravity_bridge \<Rightarrow> stimulus \<Rightarrow> gravity_stats \<times> 'f gravity_bridge" where
  "process_stimulus F gb stim =
     (case gb of
        Inactive \<Rightarrow> (\<lparr>renewal_pressure = None\<rparr>, Inactive)
      | Active f gdim \<Rightarrow>
          let f1 = field_step F f;
              f2 = (if stype stim = Some ''cursor_movement'' then
                      (let coords = (case coordinates stim of None \<Rightarrow> (0, 0) | Some c \<Rightarrow> c);
                           x = py_int ((fst coords / 1920.0) * real_of_int (int gdim - 1));
                           y = py_int ((snd coords / 1080.0) * real_of_int (int gdim - 1));
                           x = max 0 (min x (int gdim - 1));
                           y = max 0 (min y (int gdim - 1));
                           z = int gdim div 2;
                           intensity =
                             min ((case velocity stim of None \<Rightarrow> 1.0 | Some w \<Rightarrow> w) / 10.0) 1.0
                       in inject_signal F (x, y, z) intensity f1)
                    else f1)
          in (get_field_stats F f2, Active f2 gdim))"

section \<open>The controller\<close>

fun str_nat :: "nat \<Rightarrow> string" where
  "str_nat n =
     (if n < 10 then [''0123456789'' ! n]
      else str_nat (n div 10) @ [''0123456789'' ! (n mod 10)])"

definition str_int :: "int \<Rightarrow> string" where
  "str_int i = (if i < 0 then ''-'' @ str_nat (nat (- i)) else str_nat (nat i))"

text \<open>
  The collaborators that are not part of these sources: the Bayesian engine, the
  tensor field, the store's reads, the codecs, the spatial engine's methods and the
  tribunal (with its own state \<open>'t\<close>).
\<close>

record ('b, 'f, 't) collaborators =
  bayes_of :: "'b bayes_ops"
  field_of :: "'f field_ops"
  vault_of :: vault_ops
  codec_of :: codec_ops
  map_adjacency :: "engine \<Rightarrow> stimulus \<Rightarrow> node \<times> engine"
  get_recursive_neighbors :: "engine \<Rightarrow> node \<Rightarrow> nat \<Rightarrow> node list"
  calculate_thought_vector :: "engine \<Rightarrow> node list \<Rightarrow> real list"
  generate_epistemic_shadow :: "'t \<Rightarrow> stimulus \<Rightarrow> shadows \<times> 't"

record ('b, 'f, 't) controller =
  ctl_engine :: engine
  tribunal :: 't
  vaults :: vault
  habit_tracker_of :: habit_tracker
  gravity_bridge_of :: "'f gravity_bridge"
  proprioception_of :: proprioception
  bayes :: 'b

text \<open>
  What one call reads from the clock and the random generator: the readings of
  \<open>time.time()\<close> that end up in data, and the two draws of the navigation jitter.
\<close>

record readings =
  t_observation :: real
  t_physics :: real
  t_evidence :: real
  t_thought :: real
  t_stardate :: real
  rnd_x :: real
  rnd_y :: real

datatype result = Thought thought | LightningBypass vault_record

definition meta_test_mode :: "stimulus \<Rightarrow> pyval option" where
  "meta_test_mode stim =
     (case meta stim of None \<Rightarrow> None | Some m \<Rightarrow> map_of m ''test_mode'')"

definition check_sovereignty :: "stimulus \<Rightarrow> bool" where
  "check_sovereignty stim =
     (if meta_test_mode stim = Some (PyBool True) then True
      else if stype stim = Some ''surveillance_probe'' then False
      else True)"

text \<open>One iteration of the loop of \<open>_update_bayesian_shadows\<close>.\<close>

definition shadow_step ::
  "'b bayes_ops \<Rightarrow> string \<Rightarrow> (string \<times> real) list \<times> 'b \<Rightarrow> string \<times> shadow \<Rightarrow>
   (string \<times> real) list \<times> 'b" where
  "shadow_step B timestamp_id acc entry =
     (let bayes_view = fst acc; b = snd acc;
          mind_name = fst entry; sh = snd entry;
          hyp = mind_name @ ''_pattern_persistence'';
          likelihood = shadow_confidence sh;
          reliability = (case sh_reliability sh of None \<Rightarrow> 1.0 | Some r \<Rightarrow> r);
          b = (if \<not> has_prior B b hyp then set_prior B hyp 0.5 1.0 b else b);
          b = add_evidence B hyp (timestamp_id @ ''_'' @ mind_name) likelihood mind_name
                reliability b;
          post = (case calculate_posterior B b hyp of
                    None \<Rightarrow> likelihood
                  | Some q \<Rightarrow> if q = 0 then likelihood else q)
      in (AList.update mind_name post bayes_view, b))"

definition update_bayesian_shadows ::
  "'b bayes_ops \<Rightarrow> 'b \<Rightarrow> shadows \<Rightarrow> real \<Rightarrow> (string \<times> real) list \<times> 'b" where
  "update_bayesian_shadows B b shs now =
     (let timestamp_id = ''stim_'' @ str_int (py_int (now * 1000))
      in foldl (shadow_step B timestamp_id) ([], b) shs)"

definition habit_success :: "logic_state \<Rightarrow> bool" where
  "habit_success logic =
     (let mode = active_mode logic;
          pred_confidence = (case inductive_prediction logic of
                               None \<Rightarrow> 0
                             | Some pred \<Rightarrow> confidence pred)
      in (mode = ''HABIT'' \<or> mode = ''GUARD-HABIT'') \<and> pred_confidence > 0.4)"

definition jump_success :: "logic_state \<Rightarrow> bool" where
  "jump_success logic =
     (active_mode logic = ''INTUITION-JUMP'' \<and> intuitive_jump_triggered logic = Some True)"

definition guard_success :: "logic_state \<Rightarrow> bool" where
  "guard_success logic =
     (active_mode logic = ''GUARD'' \<and> \<not> habit_success logic \<and> \<not> jump_success logic)"

definition update_bayesian_outcome :: "'b bayes_ops \<Rightarrow> logic_state \<Rightarrow> 'b \<Rightarrow> 'b" where
  "update_bayesian_outcome B logic b =
     (let b = update_with_outcome B ''habit_continues'' (habit_success logic) 0.7 b;
          b = update_with_outcome B ''jump_necessary'' (jump_success logic) 0.6 b;
          b = update_with_outcome B ''guard_sufficient'' (guard_success logic) 0.5 b
      in b)"

text \<open>The part of \<open>cognitively_emerge\<close> after the lightning query found nothing.\<close>

definition full_cycle ::
  "('b, 'f, 't) collaborators \<Rightarrow> ('b, 'f, 't) controller \<Rightarrow> stimulus \<Rightarrow> readings \<Rightarrow>
   gravity_stats \<Rightarrow> real \<times> real \<Rightarrow> node \<Rightarrow> intuition \<Rightarrow> prediction option \<Rightarrow>
   result option \<times> ('b, 'f, 't) controller" where
  "full_cycle C ctl stim rd gstats nav_vector nd intuition inductive =
     (let (shs, trib) = generate_epistemic_shadow C (tribunal ctl) stim;
          (bayes_shadows, b1) =
             update_bayesian_shadows (bayes_of C) (bayes ctl) shs (t_evidence rd);
          logic = synthesize_logic_triad (bayes_of C) (ctl_engine ctl) b1 inductive intuition
                    bayes_shadows;
          neighbors = get_recursive_neighbors C (ctl_engine ctl) nd 3;
          thought_vec = (if neighbors \<noteq> []
                         then calculate_thought_vector C (ctl_engine ctl) (neighbors @ [nd])
                         else replicate (dimension (ctl_engine ctl)) 0.0);
          conf = calculate_convergence shs logic thought_vec;
          sc = \<lparr>node_id = ''NODE_'' @ str_int (node_n nd) @ ''_'' @ str_int (node_k nd),
                recursion_depth = node_k nd,
                sc_coordinates = node_coordinates nd,
                sc_adjacency_value = adjacency_value nd\<rparr>;
          env = build_correlation_envelope (codec_of C) (t_stardate rd) stim shs bayes_shadows
                  logic conf;
          th = \<lparr>epistemic_traces = shs, hlsf_node = sc, logic_validity = logic,
                th_confidence = conf, th_timestamp = t_thought rd,
                th_gravity_stats = Some gstats, navigation_vector = Some nav_vector,
                ucm_envelope = Some env, th_cali_reflection = Some (cali_reflection env),
                th_final_verdict = Some (final_verdict env),
                th_final_verdict_source = Some (final_verdict_source env)\<rparr>;
          b2 = update_bayesian_outcome (bayes_of C) logic b1;
          v = crystallize (StimulusKey stim)
                (ThoughtRecord \<lparr>predicate = th, tr_confidence = conf,
                                triad_c_mode = active_mode logic,
                                tr_field_density = field_density logic,
                                tr_ucm_envelope = env,
                                tr_cali_reflection = cali_reflection env\<rparr>)
                (vaults ctl)
      in (Some (Thought th), ctl\<lparr>tribunal := trib, bayes := b2, vaults := v\<rparr>))"

text \<open>
  \<open>cognitively_emerge\<close>. An exception raised on the way leaves through \<open>Inl\<close>; the
  readings of the clock that only feed the log lines are left out.
\<close>

definition cognitively_emerge ::
  "('b, 'f, 't) collaborators \<Rightarrow> ('b, 'f, 't) controller \<Rightarrow> stimulus \<Rightarrow> readings \<Rightarrow>
   py_error + (result option \<times> ('b, 'f, 't) controller)" where
  "cognitively_emerge C ctl stim rd =
     (if \<not> check_sovereignty stim then Inr (None, ctl)
      else
        let (obs, ht, v) = record_observation (habit_tracker_of ctl) (vaults ctl) stim
                             (t_observation rd);
            (gstats, gb) = process_stimulus (field_of C) (gravity_bridge_of ctl) stim;
            orb_pos = (case orb_coordinates stim of
                         None \<Rightarrow> position (proprioception_of ctl)
                       | Some q \<Rightarrow> q);
            pr = update_physics (proprioception_of ctl) orb_pos 0.1 (t_physics rd);
            cursor_pos = (case coordinates stim of None \<Rightarrow> (0, 0) | Some c \<Rightarrow> c);
            gravity_density = (case renewal_pressure gstats of None \<Rightarrow> 0.0 | Some g \<Rightarrow> g);
            current_orb_quad = coords_to_quadrant (position pr);
            habit_heat = get_quadrant_heat ht current_orb_quad;
            nav_vector = calculate_navigation_vector pr cursor_pos habit_heat gravity_density
                           (rnd_x rd) (rnd_y rd);
            (nd, eng) = map_adjacency C (ctl_engine ctl) stim;
            ctl1 = ctl\<lparr>habit_tracker_of := ht, vaults := v, gravity_bridge_of := gb,
                       proprioception_of := pr, ctl_engine := eng\<rparr>
        in case check_necessity eng stim nd of
             Inl e \<Rightarrow> Inl e
           | Inr intuition \<Rightarrow>
               let inductive = (if jump_triggered intuition then None
                                else predict_next (vault_of C) ht v)
               in (case lightning_query (vault_of C) v stim of
                     Some cached \<Rightarrow> Inr (Some (LightningBypass cached), ctl1)
                   | None \<Rightarrow>
                       Inr (full_cycle C ctl1 stim rd gstats nav_vector nd intuition
                              inductive)))"

text \<open>
  Names for what a full cycle computes on the way: the shadows of the stimulus, the
  Bayesian view with the engine state after the evidence, and the resolved logic state.
\<close>

definition cycle_shadows :: "('b, 'f, 't) collaborators \<Rightarrow> ('b, 'f, 't) controller \<Rightarrow> stimulus \<Rightarrow> shadows" where
  "cycle_shadows C ctl stim = fst (generate_epistemic_shadow C (tribunal ctl) stim)"

definition cycle_beliefs ::
  "('b, 'f, 't) collaborators \<Rightarrow> ('b, 'f, 't) controller \<Rightarrow> stimulus \<Rightarrow> readings \<Rightarrow>
   (string \<times> real) list \<times> 'b" where
  "cycle_beliefs C ctl stim rd =
     update_bayesian_shadows (bayes_of C) (bayes ctl) (cycle_shadows C ctl stim) (t_evidence rd)"

definition cycle_logic ::
  "('b, 'f, 't) collaborators \<Rightarrow> ('b, 'f, 't) controller \<Rightarrow> stimulus \<Rightarrow> readings \<Rightarrow>
   intuition \<Rightarrow> prediction option \<Rightarrow> logic_state" where
  "cycle_logic C ctl stim rd intuition inductive =
     synthesize_logic_triad (bayes_of C) (ctl_engine ctl) (snd (cycle_beliefs C ctl stim rd))
       inductive intuition (fst (cycle_beliefs C ctl stim rd))"

text \<open>What a call returned and what the store holds after it (\<open>None\<close> after an exception).\<close>

definition returned :: "py_error + (result option \<times> ('b, 'f, 't) controller) \<Rightarrow> result option" where
  "returned r = (case r of Inl e \<Rightarrow> None | Inr p \<Rightarrow> fst p)"

definition store_after :: "py_error + (result option \<times> ('b, 'f, 't) controller) \<Rightarrow> vault option" where
  "store_after r = (case r of Inl e \<Rightarrow> None | Inr p \<Rightarrow> Some (vaults (snd p)))"

section \<open>The necessity detector in the words of its description\<close>

text \<open>
  The description of \<open>check_necessity\<close> speaks of the fraction of node-coordinate pairs
  that are mirror images and of the centroid of the first two coordinates. These two
  definitions say so directly, with sets and sums; the theorems below compare them
  with the loops of the source. A node with fewer coordinates contributes zero to the
  centroid, as the guard \<open>i < len(node.coordinates)\<close> in the source has it.
\<close>

definition spec_mirror_pairs :: "real list list \<Rightarrow> (nat \<times> nat) set" where
  "spec_mirror_pairs cs = {(i, j). i < j \<and> j < length cs \<and> mirror_pair (cs ! i) (cs ! j)}"

definition spec_symmetry :: "node list \<Rightarrow> real" where
  "spec_symmetry ns =
     (if length ns < 2 then 0
      else real (card (spec_mirror_pairs (map node_coordinates ns))) /
           (real (length ns * (length ns - 1)) / 2))"

definition coordinate_or_zero :: "nat \<Rightarrow> real list \<Rightarrow> real" where
  "coordinate_or_zero i c = (if i < length c then c ! i else 0)"

definition spec_centroid :: "node list \<Rightarrow> real \<times> real" where
  "spec_centroid ns =
     (sum_list (map (\<lambda>n. coordinate_or_zero 0 (node_coordinates n)) ns) / real (length ns),
      sum_list (map (\<lambda>n. coordinate_or_zero 1 (node_coordinates n)) ns) / real (length ns))"

section \<open>Concrete inputs\<close>

text \<open>
  A Bayesian engine that records the calls it receives, a spatial engine with three
  nodes, and the stimuli used to run the definitions.
\<close>

datatype bayes_call =
  SetPrior string real real
| AddEvidence string string real string real
| UpdateWithOutcome string bool real

definition logging_bayes :: "(bayes_call list) bayes_ops" where
  "logging_bayes =
     \<lparr>set_prior = (\<lambda>h p s b. b @ [SetPrior h p s]),
      add_evidence = (\<lambda>h i l src r b. b @ [AddEvidence h i l src r]),
      calculate_posterior = (\<lambda>b h. None),
      has_prior = (\<lambda>b h. list_ex (\<lambda>c. case c of SetPrior h' _ _ \<Rightarrow> h' = h | _ \<Rightarrow> False) b),
      update_with_outcome = (\<lambda>h s w b. b @ [UpdateWithOutcome h s w])\<rparr>"

definition node_at :: "real \<Rightarrow> real \<Rightarrow> node" where
  "node_at x y = \<lparr>node_n = 0, node_k = 0, node_coordinates = [x, y], adjacency_value = 0\<rparr>"

definition small_engine :: engine where
  "small_engine =
     \<lparr>field_map = [node_at 1 0, node_at (- 1) 0, node_at 5 5], dimension = 18,
      purge_trigger_threshold = 2, max_field_density = 100, last_density_breach = None\<rparr>"

definition dense_engine :: engine where
  "dense_engine =
     \<lparr>field_map = replicate 51 (node_at 0 0), dimension = 18,
      purge_trigger_threshold = 1000, max_field_density = 5000, last_density_breach = None\<rparr>"

definition breached_engine :: "real \<Rightarrow> engine" where
  "breached_engine d =
     \<lparr>field_map = [], dimension = 18, purge_trigger_threshold = 100,
      max_field_density = 1000, last_density_breach = Some d\<rparr>"

definition quiet :: intuition where
  "quiet = no_jump 0 0"

text \<open>
  A prediction confident enough for HABIT, the result of the necessity check on
  \<open>dense_engine\<close>, and that engine with a breach recorded above both thresholds.
\<close>

definition steady_prediction :: prediction where
  "steady_prediction =
     \<lparr>prediction_type = ''QUADRANT_TRANSITION'', target = Some ''NW'', confidence = 0.5,
      hume_vivacity = 0.6\<rparr>"

definition triggered :: intuition where
  "triggered =
     \<lparr>jump_triggered = True, int_necessity_vector = Some (0, 0),
      int_substance_unity_score = 1, bypass_steps = Some 5,
      int_spinozan_certainty = 0.98, int_field_density = 51\<rparr>"

definition dense_breached_engine :: engine where
  "dense_breached_engine = dense_engine\<lparr>last_density_breach := Some 5000\<rparr>"

definition cursor_at :: "real \<Rightarrow> real \<Rightarrow> stimulus" where
  "cursor_at x y =
     \<lparr>stype = Some ''cursor_movement'', coordinates = Some (x, y), velocity = Some 5.0,
      orb_coordinates = None, content = None, meta = None\<rparr>"

definition probe :: stimulus where
  "probe =
     \<lparr>stype = Some ''surveillance_probe'', coordinates = Some (100, 200), velocity = Some 5.0,
      orb_coordinates = None, content = None, meta = Some [(''origin'', PyStr ''scan'')]\<rparr>"

definition fresh_tracker :: habit_tracker where
  "fresh_tracker = \<lparr>sequence_buffer = [], pattern_cache = []\<rparr>"

text \<open>Feeding a sequence of stimuli to \<open>record_observation\<close>, one call after the other.\<close>

fun feed :: "habit_tracker \<times> vault \<Rightarrow> stimulus list \<Rightarrow> habit_tracker \<times> vault" where
  "feed s [] = s"
| "feed s (x # xs) =
     (case record_observation (fst s) (snd s) x 0 of (_, ht, v) \<Rightarrow> feed (ht, v) xs)"

text \<open>
  A store that answers from what was crystallized (latest entry first), a field bridge
  that does nothing, a tribunal with four fixed shadows, and a controller wired to them.
\<close>

definition replay_vault :: vault_ops where
  "replay_vault =
     \<lparr>lightning_query = (\<lambda>v s. map_of (rev v) (StimulusKey s)),
      posteriori_cache = (\<lambda>v k. case map_of (rev v) (StringKey k) of
                                   Some (HabitRecord h) \<Rightarrow> Some h
                                 | _ \<Rightarrow> None)\<rparr>"

definition still_field :: "unit field_ops" where
  "still_field =
     \<lparr>field_step = (\<lambda>f. f), inject_signal = (\<lambda>cell w f. f),
      get_field_stats = (\<lambda>f. \<lparr>renewal_pressure = None\<rparr>)\<rparr>"

definition plain_codec :: codec_ops where
  "plain_codec = \<lparr>json_dumps = (\<lambda>s. []), str_float = (\<lambda>r. []), sha256_hexdigest = (\<lambda>s. s)\<rparr>"

definition four_shadows :: shadows where
  "four_shadows =
     [(''spinoza'', \<lparr>sh_confidence = Some 0.9, sh_reliability = Some 1\<rparr>),
      (''kant'', \<lparr>sh_confidence = Some 0.8, sh_reliability = Some 1\<rparr>),
      (''hume'', \<lparr>sh_confidence = Some 0.7, sh_reliability = None\<rparr>),
      (''locke'', \<lparr>sh_confidence = None, sh_reliability = None\<rparr>)]"

definition demo_collaborators :: "(bayes_call list, unit, unit) collaborators" where
  "demo_collaborators =
     \<lparr>bayes_of = logging_bayes, field_of = still_field, vault_of = replay_vault,
      codec_of = plain_codec,
      map_adjacency = (\<lambda>e s. (node_at 0 0, e)),
      get_recursive_neighbors = (\<lambda>e n r. []),
      calculate_thought_vector = (\<lambda>e ns. []),
      generate_epistemic_shadow = (\<lambda>t s. (four_shadows, t))\<rparr>"

definition demo_controller :: "(bayes_call list, unit, unit) controller" where
  "demo_controller =
     \<lparr>ctl_engine = small_engine, tribunal = (), vaults = [],
      habit_tracker_of = fresh_tracker, gravity_bridge_of = Inactive,
      proprioception_of = \<lparr>position = (960, 540), target_safe_distance = 250.0,
                            min_safe_distance = 150.0, prop_velocity = (0.0, 0.0),
                            last_update = 0\<rparr>,
      bayes = []\<rparr>"

definition demo_readings :: readings where
  "demo_readings =
     \<lparr>t_observation = 0, t_physics = 0, t_evidence = 0, t_thought = 0, t_stardate = 0,
      rnd_x = 0.5, rnd_y = 0.5\<rparr>"

text \<open>
  A controller as it is after two calls on the same cursor stimulus: the thought of the
  first call is in the store and two observations are buffered.
\<close>

definition sample_logic :: logic_state where
  "sample_logic = synthesize_logic_triad logging_bayes small_engine [] None quiet []"

definition sample_envelope :: envelope where
  "sample_envelope =
     build_correlation_envelope plain_codec 0 (cursor_at 100 200) four_shadows [] sample_logic
       (calculate_convergence four_shadows sample_logic [])"

definition sample_thought :: thought where
  "sample_thought =
     \<lparr>epistemic_traces = four_shadows,
      hlsf_node = \<lparr>node_id = ''NODE_0_0'', recursion_depth = 0, sc_coordinates = [0, 0],
                   sc_adjacency_value = 0\<rparr>,
      logic_validity = sample_logic,
      th_confidence = calculate_convergence four_shadows sample_logic [],
      th_timestamp = 0,
      th_gravity_stats = Some \<lparr>renewal_pressure = None\<rparr>,
      navigation_vector = Some (0, 0),
      ucm_envelope = Some sample_envelope,
      th_cali_reflection = Some (cali_reflection sample_envelope),
      th_final_verdict = Some (final_verdict sample_envelope),
      th_final_verdict_source = Some (final_verdict_source sample_envelope)\<rparr>"

definition sample_record :: vault_record where
  "sample_record =
     ThoughtRecord \<lparr>predicate = sample_thought,
                    tr_confidence = th_confidence sample_thought,
                    triad_c_mode = active_mode sample_logic,
                    tr_field_density = field_density sample_logic,
                    tr_ucm_envelope = sample_envelope,
                    tr_cali_reflection = cali_reflection sample_envelope\<rparr>"

definition primed_controller :: "(bayes_call list, unit, unit) controller" where
  "primed_controller =
     demo_controller
       \<lparr>vaults := [(StimulusKey (cursor_at 100 200), sample_record)],
        habit_tracker_of :=
          fst (feed (fresh_tracker, []) [cursor_at 100 200, cursor_at 100 200])\<rparr>"

section \<open>Properties of mode synthesis\<close>

lemma field_density_rules [simp]:
  "field_density (apply_purge_rule eng st) = field_density st"
  "field_density (apply_emergency_rule eng st) = field_density st"
  "field_density (apply_habit_posterior h st) = field_density st"
  "field_density (apply_jump_posterior j st) = field_density st"
  by (simp_all add: apply_purge_rule_def apply_emergency_rule_def
      apply_habit_posterior_def apply_jump_posterior_def)

lemma synthesize_field_density:
  "field_density (synthesize_logic_triad B eng b ind intuitive bs) = effective_density eng"
  by (simp add: synthesize_logic_triad_def Let_def initial_logic_state_def
      split: option.splits)

lemma purge_rule_not_guard:
  "purge_trigger_threshold eng \<le> field_density st \<Longrightarrow>
     active_mode (apply_purge_rule eng st) \<noteq> ''GUARD''"
  by (simp add: apply_purge_rule_def guard_like_def)

lemma later_rules_keep_not_guard:
  "active_mode st \<noteq> ''GUARD'' \<Longrightarrow>
     active_mode (apply_jump_posterior j (apply_habit_posterior h
       (apply_emergency_rule eng st))) \<noteq> ''GUARD''"
  by (simp add: apply_emergency_rule_def apply_habit_posterior_def apply_jump_posterior_def)

lemma live_le_effective: "real (length (field_map eng)) \<le> effective_density eng"
  by (simp add: effective_density_def Let_def)

lemma no_jump_not_guard:
  "\<not> jump_triggered intuitive \<Longrightarrow> purge_trigger_threshold eng \<le> effective_density eng \<Longrightarrow>
   active_mode (synthesize_logic_triad B eng b ind intuitive bs) \<noteq> ''GUARD''"
  by (simp add: synthesize_logic_triad_def Let_def initial_logic_state_def
      apply_purge_rule_def apply_emergency_rule_def apply_habit_posterior_def
      apply_jump_posterior_def guard_like_def split: option.splits)

text \<open>
  C1. Whenever the density that a synthesis cycle works with (the live node count, or
  the effective density the cycle reports) has reached \<open>purge_trigger_threshold\<close>,
  the mode that \<open>_synthesize_logic_triad\<close> resolves is not GUARD.
\<close>

theorem guard_excluded_under_density_breach:
  assumes "purge_trigger_threshold eng \<le> real (length (field_map eng)) \<or>
           purge_trigger_threshold eng \<le>
             field_density (synthesize_logic_triad B eng b ind intuitive bs)"
  shows "active_mode (synthesize_logic_triad B eng b ind intuitive bs) \<noteq> ''GUARD''"
proof (cases "jump_triggered intuitive")
  case True
  then show ?thesis
    by (simp add: synthesize_logic_triad_def Let_def)
next
  case False
  from assms have "purge_trigger_threshold eng \<le> effective_density eng"
    using live_le_effective [of eng] by (auto simp: synthesize_field_density)
  with False show ?thesis
    by (rule no_jump_not_guard)
qed

theorem guard_excluded_under_density_breach_witness:
  "purge_trigger_threshold small_engine \<le> real (length (field_map small_engine)) \<and>
   active_mode (synthesize_logic_triad logging_bayes small_engine [] None quiet []) \<noteq> ''GUARD''"
  using guard_excluded_under_density_breach
          [of small_engine logging_bayes "[]" None quiet "[]"]
  by (simp add: small_engine_def)

lemma effective_density_breach:
  "last_density_breach eng = Some d \<Longrightarrow> effective_density eng = max (real (length (field_map eng))) d"
  by (simp add: effective_density_def Let_def)

lemma forced_guard_habit_fires:
  assumes "\<not> jump_triggered intuitive"
    and "purge_trigger_threshold eng \<le> effective_density eng"
    and "\<forall>p. ind = Some p \<longrightarrow> confidence p \<le> 0.35"
  shows "density_penalty (synthesize_logic_triad B eng b ind intuitive bs) \<in> {Some 1.0, Some 1.5}"
  using assms
  by (cases "ind")
     (simp_all add: synthesize_logic_triad_def Let_def initial_logic_state_def
      apply_purge_rule_def apply_emergency_rule_def apply_habit_posterior_def
      apply_jump_posterior_def guard_like_def)

lemma emergency_jump_fires:
  assumes "\<not> jump_triggered intuitive"
    and "max_field_density eng * 0.95 \<le> effective_density eng"
  shows "density_penalty (synthesize_logic_triad B eng b ind intuitive bs) = Some 1.5 \<and>
         active_mode (synthesize_logic_triad B eng b ind intuitive bs) = ''INTUITION-JUMP''"
  using assms
  by (cases "ind")
     (simp_all add: synthesize_logic_triad_def Let_def initial_logic_state_def
      apply_purge_rule_def apply_emergency_rule_def apply_habit_posterior_def
      apply_jump_posterior_def guard_like_def)

text \<open>
  C9, as the code has it. The density that the synthesizer compares with the two
  thresholds is the maximum of the live node count and \<open>last_density_breach\<close>. With a
  recorded breach \<open>d\<close> at or above \<open>purge_trigger_threshold\<close>, every cycle without a
  jump whose prediction left the mode at GUARD or GUARD-HABIT gets the forced
  GUARD-HABIT rule (a density penalty is set and the mode is not GUARD); with \<open>d\<close> at
  or above 95 percent of \<open>max_field_density\<close>, every cycle without a jump gets the
  emergency INTUITION-JUMP. Neither depends on the live node count.
\<close>

theorem breach_density_keeps_forcing:
  "field_density (synthesize_logic_triad B eng b ind intuitive bs) =
     max (real (length (field_map eng)))
         (case last_density_breach eng of None \<Rightarrow> 0 | Some d \<Rightarrow> d) \<and>
   (\<not> jump_triggered intuitive \<and> last_density_breach eng = Some d \<and>
    purge_trigger_threshold eng \<le> d \<and> (\<forall>p. ind = Some p \<longrightarrow> confidence p \<le> 0.35) \<longrightarrow>
      density_penalty (synthesize_logic_triad B eng b ind intuitive bs) \<in> {Some 1.0, Some 1.5} \<and>
      active_mode (synthesize_logic_triad B eng b ind intuitive bs) \<noteq> ''GUARD'') \<and>
   (\<not> jump_triggered intuitive \<and> last_density_breach eng = Some d \<and>
    max_field_density eng * 0.95 \<le> d \<longrightarrow>
      density_penalty (synthesize_logic_triad B eng b ind intuitive bs) = Some 1.5 \<and>
      active_mode (synthesize_logic_triad B eng b ind intuitive bs) = ''INTUITION-JUMP'')"
proof (intro conjI impI)
  show "field_density (synthesize_logic_triad B eng b ind intuitive bs) =
     max (real (length (field_map eng)))
         (case last_density_breach eng of None \<Rightarrow> 0 | Some d \<Rightarrow> d)"
    by (simp add: synthesize_field_density effective_density_def Let_def)
next
  assume h: "\<not> jump_triggered intuitive \<and> last_density_breach eng = Some d \<and>
    purge_trigger_threshold eng \<le> d \<and> (\<forall>p. ind = Some p \<longrightarrow> confidence p \<le> 0.35)"
  then have e: "purge_trigger_threshold eng \<le> effective_density eng"
    by (simp add: effective_density_breach le_max_iff_disj)
  from h e show "density_penalty (synthesize_logic_triad B eng b ind intuitive bs) \<in> {Some 1.0, Some 1.5}"
    by (intro forced_guard_habit_fires) simp_all
  from h e show "active_mode (synthesize_logic_triad B eng b ind intuitive bs) \<noteq> ''GUARD''"
    by (intro no_jump_not_guard) simp_all
next
  assume h: "\<not> jump_triggered intuitive \<and> last_density_breach eng = Some d \<and>
    max_field_density eng * 0.95 \<le> d"
  then have e: "max_field_density eng * 0.95 \<le> effective_density eng"
    by (simp add: effective_density_breach le_max_iff_disj)
  from h e have "density_penalty (synthesize_logic_triad B eng b ind intuitive bs) = Some 1.5 \<and>
         active_mode (synthesize_logic_triad B eng b ind intuitive bs) = ''INTUITION-JUMP''"
    by (intro emergency_jump_fires) simp_all
  then show "density_penalty (synthesize_logic_triad B eng b ind intuitive bs) = Some 1.5"
    and "active_mode (synthesize_logic_triad B eng b ind intuitive bs) = ''INTUITION-JUMP''"
    by simp_all
qed

theorem breach_density_keeps_forcing_witness:
  "real (length (field_map (breached_engine 500))) < purge_trigger_threshold (breached_engine 500) \<and>
   density_penalty (synthesize_logic_triad logging_bayes (breached_engine 500) [] None quiet []) = Some 1 \<and>
   active_mode (synthesize_logic_triad logging_bayes (breached_engine 500) [] None quiet []) = ''GUARD-HABIT'' \<and>
   real (length (field_map (breached_engine 960))) < max_field_density (breached_engine 960) * 0.95 \<and>
   density_penalty (synthesize_logic_triad logging_bayes (breached_engine 960) [] None quiet []) = Some 1.5 \<and>
   active_mode (synthesize_logic_triad logging_bayes (breached_engine 960) [] None quiet []) = ''INTUITION-JUMP''"
  using breach_density_keeps_forcing [of logging_bayes "breached_engine 500" "[]" None quiet "[]" 500]
        breach_density_keeps_forcing [of logging_bayes "breached_engine 960" "[]" None quiet "[]" 960]
  apply (simp add: breached_engine_def quiet_def no_jump_def)
  apply (simp add: synthesize_logic_triad_def Let_def initial_logic_state_def
      apply_purge_rule_def apply_emergency_rule_def apply_habit_posterior_def
      apply_jump_posterior_def guard_like_def effective_density_def logging_bayes_def or_zero_def)
  done

lemma quadrant_100_200: "coords_to_quadrant (100, 200) = ''NW''"
  by (simp add: coords_to_quadrant_def Let_def)


lemma replicate_four: "replicate 4 x = [x,x,x,x]" by (simp add: numeral_eq_Suc)

text \<open>
  C2. The claim asks for the record persisted at each observation to be keyed by the
  pattern of the last three observations. \<open>record_observation\<close> serializes the whole
  buffer, so from the fourth observation on the key has four or five labels: after four
  cursor observations in the NW quadrant the store has received the keys
  \<open>habit_NW_NW_NW\<close> and \<open>habit_NW_NW_NW_NW\<close>, while \<open>predict_next\<close> reads
  \<open>habit_NW_NW_NW\<close>.
\<close>

theorem fourth_observation_key:
  "snd (feed (fresh_tracker, []) (replicate 4 (cursor_at 100 200))) =
     [(StringKey ''habit_NW_NW_NW'',
       HabitRecord \<lparr>pattern = ''NW_NW_NW'', frequency = 1 / 10, predicted_next = ''NW'',
                    temporal_decay = 0.95\<rparr>),
      (StringKey ''habit_NW_NW_NW_NW'',
       HabitRecord \<lparr>pattern = ''NW_NW_NW_NW'', frequency = 1 / 10, predicted_next = ''NW'',
                    temporal_decay = 0.95\<rparr>)]"
  by (simp add: replicate_four fresh_tracker_def cursor_at_def record_observation_def quadrant_100_200 Let_def
      deque_append_def serialize_pattern_def update_conjunction_frequency_def
      cache_increment_def cache_count_def crystallize_def extrapolate_next_quadrant_def)

lemma mirror_pairs_Nil: "spec_mirror_pairs [] = {}"
  by (auto simp: spec_mirror_pairs_def)

lemma mirror_pairs_Cons:
  "spec_mirror_pairs (c # cs) =
     (\<lambda>j. (0, Suc j)) ` {j. j < length cs \<and> mirror_pair c (cs ! j)} \<union>
     (\<lambda>(i, j). (Suc i, Suc j)) ` spec_mirror_pairs cs"
proof (rule set_eqI)
  fix p :: "nat \<times> nat"
  obtain i j where p: "p = (i, j)" by (cases p)
  show "p \<in> spec_mirror_pairs (c # cs) \<longleftrightarrow>
        p \<in> (\<lambda>j. (0, Suc j)) ` {j. j < length cs \<and> mirror_pair c (cs ! j)} \<union>
            (\<lambda>(i, j). (Suc i, Suc j)) ` spec_mirror_pairs cs"
  proof (cases i)
    case 0
    then show ?thesis
      unfolding p spec_mirror_pairs_def
      by (cases j) (auto simp: image_iff)
  next
    case (Suc i')
    then show ?thesis
      unfolding p spec_mirror_pairs_def
      by (cases j) (auto simp: image_iff)
  qed
qed

lemma finite_mirror_pairs: "finite (spec_mirror_pairs cs)"
proof -
  have "spec_mirror_pairs cs \<subseteq> {..<length cs} \<times> {..<length cs}"
    by (auto simp: spec_mirror_pairs_def)
  then show ?thesis
    by (rule finite_subset) simp
qed

lemma mirror_count_card: "mirror_count cs = card (spec_mirror_pairs cs)"
proof (induction cs)
  case Nil
  show ?case by (simp add: mirror_pairs_Nil)
next
  case (Cons c cs)
  let ?A = "(\<lambda>j. (0::nat, Suc j)) ` {j. j < length cs \<and> mirror_pair c (cs ! j)}"
  let ?B = "(\<lambda>(i, j). (Suc i, Suc j)) ` spec_mirror_pairs cs"
  have fa: "finite ?A" by simp
  have fb: "finite ?B" by (simp add: finite_mirror_pairs)
  have disj: "?A \<inter> ?B = {}" by auto
  have ca: "card ?A = length (filter (mirror_pair c) cs)"
    by (simp add: card_image inj_on_def length_filter_conv_card)
  have cb: "card ?B = card (spec_mirror_pairs cs)"
    by (rule card_image) (auto simp: inj_on_def)
  have "card (spec_mirror_pairs (c # cs)) = card ?A + card ?B"
    unfolding mirror_pairs_Cons using fa fb disj by (rule card_Un_disjoint)
  with ca cb Cons.IH show ?case by simp
qed

lemma total_pairs_pos: "2 \<le> n \<Longrightarrow> 0 < total_pairs n"
  by (simp add: total_pairs_def)

lemma symmetry_returns:
  "calculate_bilateral_symmetry eng = Inr (spec_symmetry (field_map eng))"
proof (cases "length (field_map eng) < 2")
  case True
  then show ?thesis
    by (simp add: calculate_bilateral_symmetry_def spec_symmetry_def Let_def)
next
  case False
  then have n: "2 \<le> length (field_map eng)" by simp
  then have ne: "field_map eng \<noteq> []" by auto
  from n have tp: "0 < total_pairs (length (field_map eng))" by (rule total_pairs_pos)
  show ?thesis
    using False ne tp
    by (simp add: calculate_bilateral_symmetry_def spec_symmetry_def Let_def py_truediv_def
        mirror_count_card total_pairs_def)
qed

lemma length_add_coordinates [simp]: "length (add_coordinates acc c) = length acc"
  by (simp add: add_coordinates_def)

lemma nth_add_coordinates:
  "i < length acc \<Longrightarrow> add_coordinates acc c ! i = acc ! i + coordinate_or_zero i c"
  by (simp add: add_coordinates_def coordinate_or_zero_def)

lemma length_foldl_add_coordinates [simp]:
  "length (foldl add_coordinates acc cs) = length acc"
  by (induction cs arbitrary: acc) simp_all

lemma nth_foldl_add_coordinates:
  "i < length acc \<Longrightarrow>
   foldl add_coordinates acc cs ! i = acc ! i + sum_list (map (coordinate_or_zero i) cs)"
  by (induction cs arbitrary: acc) (simp_all add: nth_add_coordinates)

lemma substance_vector_returns:
  assumes "2 \<le> dimension eng" and "field_map eng \<noteq> []"
  shows "calculate_substance_vector eng nd = Inr (spec_centroid (field_map eng))"
proof -
  let ?k = "min (dimension eng) 18"
  from assms(1) have k: "0 < ?k" "1 < ?k" "2 \<le> ?k" by simp_all
  show ?thesis
    using assms(2) k
    by (simp add: calculate_substance_vector_def Let_def spec_centroid_def
        nth_foldl_add_coordinates comp_def)
qed

lemma substance_vector_raises:
  "dimension eng < 2 \<Longrightarrow> field_map eng \<noteq> [] \<Longrightarrow>
   calculate_substance_vector eng nd = Inl IndexError"
  by (simp add: calculate_substance_vector_def Let_def)

text \<open>
  C5. On an engine with at least two dimensions, \<open>check_necessity\<close> returns, and what
  it returns is decided by one test: when the live node count exceeds 50 and the
  fraction of mirror-image pairs exceeds 0.9 it reports a triggered jump with certainty
  0.98 and the centroid of the first two coordinates as necessity vector; in every other
  case it reports no jump and certainty 0. Both results carry the measured node count
  and symmetry.
\<close>

theorem check_necessity_jump_iff:
  assumes "2 \<le> dimension eng"
  shows "check_necessity eng stim nd =
     Inr (if length (field_map eng) > 50 \<and> spec_symmetry (field_map eng) > 0.9
          then \<lparr>jump_triggered = True,
                int_necessity_vector = Some (spec_centroid (field_map eng)),
                int_substance_unity_score = spec_symmetry (field_map eng),
                bypass_steps = Some (length (field_map eng) div 10),
                int_spinozan_certainty = 0.98,
                int_field_density = length (field_map eng)\<rparr>
          else \<lparr>jump_triggered = False,
                int_necessity_vector = None,
                int_substance_unity_score = spec_symmetry (field_map eng),
                bypass_steps = None,
                int_spinozan_certainty = 0.0,
                int_field_density = length (field_map eng)\<rparr>)"
proof (cases "length (field_map eng) > 50 \<and> spec_symmetry (field_map eng) > 0.9")
  case True
  then have "field_map eng \<noteq> []" by auto
  with assms have "calculate_substance_vector eng nd = Inr (spec_centroid (field_map eng))"
    by (rule substance_vector_returns)
  with True show ?thesis
    by (simp add: check_necessity_def Let_def symmetry_returns)
next
  case False
  then show ?thesis
    by (auto simp add: check_necessity_def Let_def symmetry_returns no_jump_def)
qed

lemma small_engine_symmetry: "spec_symmetry (field_map small_engine) = 1 / 3"
proof -
  have "calculate_bilateral_symmetry small_engine = Inr (1 / 3)"
    by (simp add: calculate_bilateral_symmetry_def small_engine_def node_at_def Let_def
        total_pairs_def py_truediv_def mirror_pair_def)
  then show ?thesis
    by (simp add: symmetry_returns)
qed

text \<open>
  C10. The symmetry computation always returns a score and never raises
  ZeroDivisionError: with fewer than two nodes the score is 0, and with two or more the
  divisor \<open>total_pairs\<close> is strictly positive where the division takes place. With at
  most 50 nodes, and so on an empty field, \<open>check_necessity\<close> returns the no-jump
  result; on the empty field its \<open>substance_unity_score\<close> is 0.
\<close>

theorem symmetry_never_divides_by_zero:
  "(length (field_map eng) < 2 \<longrightarrow> calculate_bilateral_symmetry eng = Inr 0) \<and>
   (\<exists>s. calculate_bilateral_symmetry eng = Inr s) \<and>
   (2 \<le> length (field_map eng) \<longrightarrow>
      0 < total_pairs (length (field_map eng)) \<and>
      calculate_bilateral_symmetry eng =
        py_truediv (real (mirror_count (map node_coordinates (field_map eng))))
          (total_pairs (length (field_map eng)))) \<and>
   (length (field_map eng) \<le> 50 \<longrightarrow>
      check_necessity eng stim nd =
        Inr (no_jump (length (field_map eng)) (spec_symmetry (field_map eng)))) \<and>
   (field_map eng = [] \<longrightarrow> check_necessity eng stim nd = Inr (no_jump 0 0))"
proof (intro conjI impI)
  show "\<exists>s. calculate_bilateral_symmetry eng = Inr s"
    by (simp add: symmetry_returns)
next
  assume "length (field_map eng) < 2"
  then show "calculate_bilateral_symmetry eng = Inr 0"
    by (simp add: calculate_bilateral_symmetry_def Let_def)
next
  assume n: "2 \<le> length (field_map eng)"
  then show "0 < total_pairs (length (field_map eng))"
    by (rule total_pairs_pos)
  from n have "field_map eng \<noteq> []" by auto
  with n total_pairs_pos [OF n]
  show "calculate_bilateral_symmetry eng =
        py_truediv (real (mirror_count (map node_coordinates (field_map eng))))
          (total_pairs (length (field_map eng)))"
    by (simp add: calculate_bilateral_symmetry_def Let_def)
next
  assume "length (field_map eng) \<le> 50"
  then show "check_necessity eng stim nd =
        Inr (no_jump (length (field_map eng)) (spec_symmetry (field_map eng)))"
    by (simp add: check_necessity_def Let_def symmetry_returns)
next
  assume "field_map eng = []"
  then show "check_necessity eng stim nd = Inr (no_jump 0 0)"
    by (simp add: check_necessity_def Let_def calculate_bilateral_symmetry_def)
qed

theorem symmetry_never_divides_by_zero_witness:
  "length (field_map (breached_engine 0)) < 2 \<and>
   calculate_bilateral_symmetry (breached_engine 0) = Inr 0 \<and>
   check_necessity (breached_engine 0) probe (node_at 0 0) = Inr (no_jump 0 0) \<and>
   2 \<le> length (field_map small_engine) \<and>
   0 < total_pairs (length (field_map small_engine)) \<and>
   length (field_map small_engine) \<le> 50 \<and>
   check_necessity small_engine probe (node_at 0 0) =
     Inr (no_jump 3 (spec_symmetry (field_map small_engine)))"
proof -
  have e: "field_map (breached_engine 0) = []"
    by (simp add: breached_engine_def)
  have n: "length (field_map small_engine) = 3"
    by (simp add: small_engine_def)
  show ?thesis
    using symmetry_never_divides_by_zero [of "breached_engine 0" probe "node_at 0 0"]
          symmetry_never_divides_by_zero [of small_engine probe "node_at 0 0"]
    by (simp add: e n spec_symmetry_def)
qed





lemma full_cycle_bayes:
  "bayes (snd (full_cycle C ctl stim rd gstats nav nd intu ind)) =
     update_bayesian_outcome (bayes_of C) (cycle_logic C ctl stim rd intu ind)
       (snd (cycle_beliefs C ctl stim rd))"
  by (simp add: full_cycle_def Let_def split_beta cycle_logic_def cycle_beliefs_def
      cycle_shadows_def)

lemma guard_success_iff: "guard_success logic \<longleftrightarrow> active_mode logic = ''GUARD''"
  by (auto simp: guard_success_def habit_success_def jump_success_def Let_def)

text \<open>
  C7. The outcome feedback of a full cycle is three updates of the belief updater, one
  per named hypothesis and in this order: \<open>habit_continues\<close> with weight 0.7, a success
  iff the mode is HABIT or GUARD-HABIT and the confidence of the inductive prediction
  (0 when there is none) exceeds 0.4; \<open>jump_necessary\<close> with weight 0.6, a success iff
  the mode is INTUITION-JUMP and the jump was triggered; \<open>guard_sufficient\<close> with weight
  0.5, a success iff the mode is GUARD and neither of the other two succeeded. The
  engine that records its calls receives exactly these three, and the belief state a
  full cycle leaves is the state after the evidence with this feedback applied.
\<close>

theorem outcome_feedback_three_updates:
  "update_bayesian_outcome B logic b =
     update_with_outcome B ''guard_sufficient''
       (active_mode logic = ''GUARD'' \<and> \<not> habit_success logic \<and> \<not> jump_success logic) 0.5
       (update_with_outcome B ''jump_necessary''
          (active_mode logic = ''INTUITION-JUMP'' \<and> intuitive_jump_triggered logic = Some True) 0.6
          (update_with_outcome B ''habit_continues''
             ((active_mode logic = ''HABIT'' \<or> active_mode logic = ''GUARD-HABIT'') \<and>
              0.4 < (case inductive_prediction logic of None \<Rightarrow> 0 | Some p \<Rightarrow> confidence p))
             0.7 b)) \<and>
   habit_success logic =
     ((active_mode logic = ''HABIT'' \<or> active_mode logic = ''GUARD-HABIT'') \<and>
      0.4 < (case inductive_prediction logic of None \<Rightarrow> 0 | Some p \<Rightarrow> confidence p)) \<and>
   jump_success logic =
     (active_mode logic = ''INTUITION-JUMP'' \<and> intuitive_jump_triggered logic = Some True) \<and>
   update_bayesian_outcome logging_bayes logic calls =
     calls @ [UpdateWithOutcome ''habit_continues'' (habit_success logic) 0.7,
              UpdateWithOutcome ''jump_necessary'' (jump_success logic) 0.6,
              UpdateWithOutcome ''guard_sufficient'' (guard_success logic) 0.5] \<and>
   bayes (snd (full_cycle C ctl stim rd gstats nav nd intu ind)) =
     update_bayesian_outcome (bayes_of C) (cycle_logic C ctl stim rd intu ind)
       (snd (cycle_beliefs C ctl stim rd))"
proof (intro conjI)
  show "bayes (snd (full_cycle C ctl stim rd gstats nav nd intu ind)) =
     update_bayesian_outcome (bayes_of C) (cycle_logic C ctl stim rd intu ind)
       (snd (cycle_beliefs C ctl stim rd))"
    by (rule full_cycle_bayes)
qed (simp_all add: update_bayesian_outcome_def Let_def guard_success_def habit_success_def
      jump_success_def logging_bayes_def)

lemma full_cycle_thought:
  "returned (Inr (full_cycle C ctl stim rd gstats nav nd intu ind)) = Some (Thought th) \<Longrightarrow>
   logic_validity th = cycle_logic C ctl stim rd intu ind \<and>
   ucm_envelope th =
     Some (build_correlation_envelope (codec_of C) (t_stardate rd) stim
             (cycle_shadows C ctl stim) (fst (cycle_beliefs C ctl stim rd))
             (cycle_logic C ctl stim rd intu ind) (th_confidence th)) \<and>
   th_final_verdict th = Some (verdict_from_mode (active_mode (cycle_logic C ctl stim rd intu ind))) \<and>
   th_final_verdict_source th = Some ''UCM Core-4 deliberation (ECM advisory only)''"
  by (auto simp add: returned_def full_cycle_def Let_def split_beta cycle_logic_def
      cycle_beliefs_def cycle_shadows_def build_correlation_envelope_def)



text \<open>
  C3. A stimulus of type \<open>surveillance_probe\<close> whose metadata does not set
  \<open>test_mode\<close> to \<open>True\<close> makes \<open>cognitively_emerge\<close> return \<open>None\<close> and
  leaves the whole controller as it was: the ring buffer, the pattern counts and the
  state of the belief updater among the rest.
\<close>

theorem surveillance_probe_rejected:
  assumes "stype stim = Some ''surveillance_probe''"
    and "meta_test_mode stim \<noteq> Some (PyBool True)"
  shows "cognitively_emerge C ctl stim rd = Inr (None, ctl)"
  using assms by (simp add: cognitively_emerge_def check_sovereignty_def)

theorem surveillance_probe_rejected_witness:
  "stype probe = Some ''surveillance_probe'' \<and>
   meta_test_mode probe \<noteq> Some (PyBool True) \<and>
   cognitively_emerge demo_collaborators primed_controller probe demo_readings =
     Inr (None, primed_controller) \<and>
   sequence_buffer (habit_tracker_of (snd (projr
     (cognitively_emerge demo_collaborators primed_controller probe demo_readings)))) =
     sequence_buffer (habit_tracker_of primed_controller)"
proof -
  have a: "stype probe = Some ''surveillance_probe''"
    by (simp add: probe_def)
  have b: "meta_test_mode probe \<noteq> Some (PyBool True)"
    by (simp add: probe_def meta_test_mode_def)
  from surveillance_probe_rejected [OF a b, of demo_collaborators primed_controller demo_readings]
    a b show ?thesis by simp
qed

lemma check_necessity_returns:
  assumes "2 \<le> dimension eng"
  shows "\<exists>i. check_necessity eng stim nd = Inr i"
proof (cases "field_map eng = []")
  case True
  then show ?thesis
    by (simp add: check_necessity_def Let_def symmetry_returns)
next
  case False
  with assms have "calculate_substance_vector eng nd = Inr (spec_centroid (field_map eng))"
    by (rule substance_vector_returns)
  then show ?thesis
    by (simp add: check_necessity_def Let_def symmetry_returns)
qed

lemma record_observation_store:
  "\<exists>ws. snd (snd (record_observation ht v stim now)) = v @ ws \<and> length ws \<le> 1 \<and>
        list_all (\<lambda>w. \<exists>k h. w = (StringKey k, HabitRecord h)) ws"
proof (cases "stype stim = Some ''cursor_movement'' \<and>
              3 \<le> length (deque_append (sequence_buffer ht)
                     \<lparr>quadrant = coords_to_quadrant
                                   (case coordinates stim of None \<Rightarrow> (0, 0) | Some c \<Rightarrow> c),
                      obs_coords = (case coordinates stim of None \<Rightarrow> (0, 0) | Some c \<Rightarrow> c),
                      obs_velocity = (case velocity stim of None \<Rightarrow> 0.0 | Some w \<Rightarrow> w),
                      obs_timestamp = now\<rparr>)")
  case True
  then show ?thesis
    by (simp add: record_observation_def Let_def split_beta update_conjunction_frequency_def
        crystallize_def)
next
  case False
  then have "snd (snd (record_observation ht v stim now)) = v @ []"
    by (auto simp add: record_observation_def Let_def split_beta)
  then show ?thesis
    by (intro exI [of _ "[]"]) simp
qed

lemma bypass_cycle:
  assumes sov: "check_sovereignty stim"
    and dim: "2 \<le> dimension (snd (map_adjacency C (ctl_engine ctl) stim))"
    and hit: "lightning_query (vault_of C)
                (snd (snd (record_observation (habit_tracker_of ctl) (vaults ctl) stim
                             (t_observation rd)))) stim = Some cached"
  shows "\<exists>ctl'. cognitively_emerge C ctl stim rd = Inr (Some (LightningBypass cached), ctl') \<and>
           bayes ctl' = bayes ctl \<and> tribunal ctl' = tribunal ctl \<and>
           vaults ctl' = snd (snd (record_observation (habit_tracker_of ctl) (vaults ctl) stim
                                     (t_observation rd)))"
proof -
  obtain i where i: "check_necessity (snd (map_adjacency C (ctl_engine ctl) stim)) stim
                       (fst (map_adjacency C (ctl_engine ctl) stim)) = Inr i"
    using check_necessity_returns [OF dim] by blast
  show ?thesis
    using sov hit i
    by (simp add: cognitively_emerge_def Let_def split_beta)
qed

text \<open>
  C6, as the code has it. When the stimulus passes the sovereignty check and the store,
  asked after the pattern memory was updated, has a cached result for it, then
  \<open>cognitively_emerge\<close> returns that cached result itself; the belief updater and the
  tribunal are as before the call (no shadows, no evidence, no outcome feedback, no
  synthesis); and the store has received at most one new record, the habit record of
  \<open>record_observation\<close>, never a thought record. The engine is taken to have at
  least two dimensions, so that the necessity check before the query returns.
\<close>

theorem lightning_bypass_frame:
  assumes sov: "check_sovereignty stim"
    and dim: "2 \<le> dimension (snd (map_adjacency C (ctl_engine ctl) stim))"
    and hit: "lightning_query (vault_of C)
                (snd (snd (record_observation (habit_tracker_of ctl) (vaults ctl) stim
                             (t_observation rd)))) stim = Some cached"
  shows "\<exists>ctl' ws. cognitively_emerge C ctl stim rd = Inr (Some (LightningBypass cached), ctl') \<and>
           bayes ctl' = bayes ctl \<and> tribunal ctl' = tribunal ctl \<and>
           vaults ctl' = vaults ctl @ ws \<and> length ws \<le> 1 \<and>
           list_all (\<lambda>w. \<exists>k h. w = (StringKey k, HabitRecord h)) ws"
proof -
  from bypass_cycle [OF sov dim hit] obtain ctl' where
    c: "cognitively_emerge C ctl stim rd = Inr (Some (LightningBypass cached), ctl')"
       "bayes ctl' = bayes ctl" "tribunal ctl' = tribunal ctl"
       "vaults ctl' = snd (snd (record_observation (habit_tracker_of ctl) (vaults ctl) stim
                                     (t_observation rd)))"
    by blast
  from record_observation_store [of "habit_tracker_of ctl" "vaults ctl" stim "t_observation rd"]
  obtain ws where
    w: "snd (snd (record_observation (habit_tracker_of ctl) (vaults ctl) stim
                    (t_observation rd))) = vaults ctl @ ws"
       "length ws \<le> 1" "list_all (\<lambda>w. \<exists>k h. w = (StringKey k, HabitRecord h)) ws"
    by blast
  from c w show ?thesis by auto
qed

lemma primed_tracker:
  "habit_tracker_of primed_controller =
     \<lparr>sequence_buffer =
        [\<lparr>quadrant = ''NW'', obs_coords = (100, 200), obs_velocity = 5, obs_timestamp = 0\<rparr>,
         \<lparr>quadrant = ''NW'', obs_coords = (100, 200), obs_velocity = 5, obs_timestamp = 0\<rparr>],
      pattern_cache = []\<rparr>"
  by (simp add: primed_controller_def fresh_tracker_def cursor_at_def record_observation_def
      quadrant_100_200 Let_def deque_append_def)

lemma primed_observation:
  "snd (snd (record_observation (habit_tracker_of primed_controller) (vaults primed_controller)
               (cursor_at 100 200) (t_observation demo_readings))) =
     vaults primed_controller @
       [(StringKey ''habit_NW_NW_NW'',
         HabitRecord \<lparr>pattern = ''NW_NW_NW'', frequency = 1 / 10, predicted_next = ''NW'',
                      temporal_decay = 0.95\<rparr>)]"
  unfolding primed_tracker
  by (simp add: cursor_at_def record_observation_def quadrant_100_200 Let_def
      deque_append_def serialize_pattern_def update_conjunction_frequency_def
      cache_increment_def cache_count_def crystallize_def extrapolate_next_quadrant_def)

lemma primed_hit:
  "lightning_query (vault_of demo_collaborators)
     (snd (snd (record_observation (habit_tracker_of primed_controller)
                  (vaults primed_controller) (cursor_at 100 200) (t_observation demo_readings))))
     (cursor_at 100 200) = Some sample_record"
  unfolding primed_observation
  by (simp add: demo_collaborators_def replay_vault_def primed_controller_def)

lemma primed_premises:
  "check_sovereignty (cursor_at 100 200)"
  "2 \<le> dimension (snd (map_adjacency demo_collaborators (ctl_engine primed_controller)
                          (cursor_at 100 200)))"
  by (simp_all add: check_sovereignty_def meta_test_mode_def cursor_at_def
      demo_collaborators_def primed_controller_def demo_controller_def small_engine_def)

text \<open>
  C6 as stated says that nothing new is crystallized in a bypassed cycle. On a
  controller that holds the thought of an earlier call on the same cursor stimulus and
  two buffered observations, the third call is bypassed and still leaves one more
  record in the store, the habit record written before the query.
\<close>

theorem bypass_cycle_crystallizes_habit:
  "returned (cognitively_emerge demo_collaborators primed_controller (cursor_at 100 200)
               demo_readings) = Some (LightningBypass sample_record) \<and>
   store_after (cognitively_emerge demo_collaborators primed_controller (cursor_at 100 200)
                  demo_readings) =
     Some (vaults primed_controller @
       [(StringKey ''habit_NW_NW_NW'',
         HabitRecord \<lparr>pattern = ''NW_NW_NW'', frequency = 1 / 10, predicted_next = ''NW'',
                      temporal_decay = 0.95\<rparr>)]) \<and>
   store_after (cognitively_emerge demo_collaborators primed_controller (cursor_at 100 200)
                  demo_readings) \<noteq> Some (vaults primed_controller)"
proof -
  from bypass_cycle [OF primed_premises primed_hit] obtain ctl' where
    c: "cognitively_emerge demo_collaborators primed_controller (cursor_at 100 200)
          demo_readings = Inr (Some (LightningBypass sample_record), ctl')"
       "vaults ctl' =
          snd (snd (record_observation (habit_tracker_of primed_controller)
                      (vaults primed_controller) (cursor_at 100 200)
                      (t_observation demo_readings)))"
    by blast
  show ?thesis
    unfolding c(1) by (simp add: returned_def store_after_def c(2) primed_observation)
qed

theorem lightning_bypass_frame_witness:
  "check_sovereignty (cursor_at 100 200) \<and>
   2 \<le> dimension (snd (map_adjacency demo_collaborators (ctl_engine primed_controller)
                          (cursor_at 100 200))) \<and>
   lightning_query (vault_of demo_collaborators)
     (snd (snd (record_observation (habit_tracker_of primed_controller)
                  (vaults primed_controller) (cursor_at 100 200) (t_observation demo_readings))))
     (cursor_at 100 200) = Some sample_record \<and>
   (\<exists>ctl' ws. cognitively_emerge demo_collaborators primed_controller (cursor_at 100 200)
                demo_readings = Inr (Some (LightningBypass sample_record), ctl') \<and>
           bayes ctl' = bayes primed_controller \<and> tribunal ctl' = tribunal primed_controller \<and>
           vaults ctl' = vaults primed_controller @ ws \<and> length ws \<le> 1 \<and>
           list_all (\<lambda>w. \<exists>k h. w = (StringKey k, HabitRecord h)) ws)"
  using lightning_bypass_frame [OF primed_premises primed_hit] primed_premises primed_hit
  by blast

lemma mirror_count_replicate:
  "mirror_pair c c \<Longrightarrow> 2 * mirror_count (replicate n c) = n * (n - 1)"
proof (induction n)
  case 0
  show ?case by simp
next
  case (Suc n)
  then have "2 * mirror_count (replicate n c) = n * (n - 1)" by simp
  moreover have "filter (mirror_pair c) (replicate n c) = replicate n c"
    using Suc.prems by simp
  ultimately show ?case
    by (cases n) simp_all
qed

lemma dense_engine_symmetry: "spec_symmetry (field_map dense_engine) = 1"
proof -
  have m: "mirror_pair [0, 0] [0, 0]"
    by (simp add: mirror_pair_def)
  have "2 * mirror_count (replicate 51 [0, 0 :: real]) = 51 * (51 - 1)"
    using m by (rule mirror_count_replicate)
  then have c: "mirror_count (replicate 51 [0, 0 :: real]) = 1275"
    by simp
  have "calculate_bilateral_symmetry dense_engine = Inr 1"
    by (simp add: calculate_bilateral_symmetry_def dense_engine_def node_at_def Let_def
        total_pairs_def py_truediv_def c)
  then show ?thesis
    by (simp add: symmetry_returns)
qed

lemma dense_engine_centroid: "spec_centroid (field_map dense_engine) = (0, 0)"
  by (simp add: spec_centroid_def dense_engine_def node_at_def coordinate_or_zero_def
      sum_list_replicate)

theorem check_necessity_jump_iff_witness:
  "2 \<le> dimension small_engine \<and>
   check_necessity small_engine probe (node_at 0 0) = Inr (no_jump 3 (1 / 3)) \<and>
   2 \<le> dimension dense_engine \<and>
   check_necessity dense_engine probe (node_at 0 0) =
     Inr \<lparr>jump_triggered = True, int_necessity_vector = Some (0, 0),
          int_substance_unity_score = 1, bypass_steps = Some 5,
          int_spinozan_certainty = 0.98, int_field_density = 51\<rparr>"
proof -
  have d: "2 \<le> dimension small_engine" "2 \<le> dimension dense_engine"
    by (simp_all add: small_engine_def dense_engine_def)
  have n: "length (field_map small_engine) = 3" "length (field_map dense_engine) = 51"
    by (simp_all add: small_engine_def dense_engine_def)
  show ?thesis
    using check_necessity_jump_iff [OF d(1), of probe "node_at 0 0"]
          check_necessity_jump_iff [OF d(2), of probe "node_at 0 0"]
    by (simp add: d n small_engine_symmetry dense_engine_symmetry dense_engine_centroid
        no_jump_def)
qed

text \<open>
  C9 as stated has the density rules fire on every cycle after a recorded breach. Two
  cycles where none fires, although the recorded breach is above the threshold and the
  live count below it: a cycle whose prediction made the mode HABIT (the forced
  GUARD-HABIT rule asks for GUARD or GUARD-HABIT), and a cycle where the intuitive
  jump triggered (the function returns before the rules).
\<close>

theorem breach_without_forcing:
  "last_density_breach (breached_engine 500) = Some 500 \<and>
   purge_trigger_threshold (breached_engine 500) \<le> 500 \<and>
   real (length (field_map (breached_engine 500))) < purge_trigger_threshold (breached_engine 500) \<and>
   \<not> jump_triggered quiet \<and>
   density_penalty (synthesize_logic_triad logging_bayes (breached_engine 500) []
                      (Some steady_prediction) quiet []) = None \<and>
   active_mode (synthesize_logic_triad logging_bayes (breached_engine 500) []
                  (Some steady_prediction) quiet []) = ''HABIT'' \<and>
   last_density_breach dense_breached_engine = Some 5000 \<and>
   max_field_density dense_breached_engine * 0.95 \<le> 5000 \<and>
   purge_trigger_threshold dense_breached_engine \<le> 5000 \<and>
   real (length (field_map dense_breached_engine)) < purge_trigger_threshold dense_breached_engine \<and>
   check_necessity dense_breached_engine probe (node_at 0 0) = Inr triggered \<and>
   density_penalty (synthesize_logic_triad logging_bayes dense_breached_engine [] None
                      triggered []) = None"
proof -
  have habit:
    "density_penalty (synthesize_logic_triad logging_bayes (breached_engine 500) []
                        (Some steady_prediction) quiet []) = None \<and>
     active_mode (synthesize_logic_triad logging_bayes (breached_engine 500) []
                    (Some steady_prediction) quiet []) = ''HABIT''"
    by (simp add: synthesize_logic_triad_def Let_def initial_logic_state_def
        apply_purge_rule_def apply_emergency_rule_def apply_habit_posterior_def
        apply_jump_posterior_def guard_like_def effective_density_def logging_bayes_def
        or_zero_def breached_engine_def quiet_def no_jump_def steady_prediction_def)
  have jump:
    "density_penalty (synthesize_logic_triad logging_bayes dense_breached_engine [] None
                        triggered []) = None"
    by (simp add: synthesize_logic_triad_def Let_def initial_logic_state_def triggered_def)
  have fm: "field_map dense_breached_engine = field_map dense_engine"
    by (simp add: dense_breached_engine_def)
  have dm: "2 \<le> dimension dense_breached_engine"
    by (simp add: dense_breached_engine_def dense_engine_def)
  have len: "length (field_map dense_engine) = 51"
    by (simp add: dense_engine_def)
  have ne: "field_map dense_breached_engine \<noteq> []"
    using fm len by auto
  have "calculate_substance_vector dense_breached_engine (node_at 0 0) =
          Inr (spec_centroid (field_map dense_engine))"
    using substance_vector_returns [OF dm ne, of "node_at 0 0"] by (simp add: fm)
  then have nec: "check_necessity dense_breached_engine probe (node_at 0 0) = Inr triggered"
    by (simp add: check_necessity_def Let_def symmetry_returns fm len dense_engine_symmetry
        dense_engine_centroid triggered_def)
  have rest:
    "last_density_breach (breached_engine 500) = Some 500"
    "purge_trigger_threshold (breached_engine 500) \<le> 500"
    "real (length (field_map (breached_engine 500))) < purge_trigger_threshold (breached_engine 500)"
    "\<not> jump_triggered quiet"
    "last_density_breach dense_breached_engine = Some 5000"
    "max_field_density dense_breached_engine * 0.95 \<le> 5000"
    "purge_trigger_threshold dense_breached_engine \<le> 5000"
    "real (length (field_map dense_breached_engine)) < purge_trigger_threshold dense_breached_engine"
    by (simp_all add: breached_engine_def quiet_def no_jump_def dense_breached_engine_def
        dense_engine_def)
  from habit jump nec rest show ?thesis by blast
qed

end
